theory Spec2Isabelle
  imports Complex_Main "HOL-Library.AList" "HOL-Library.Product_Lexorder"
begin

section \<open>Topic hierarchy builder of \<^verbatim>\<open>src/database/topicmap_bertopic.py\<close>\<close>

text \<open>
  The development embeds \<^verbatim>\<open>_to_int\<close> and \<^verbatim>\<open>build_topic_tree\<close> (with its nested
  functions \<^verbatim>\<open>aggregate_terms\<close> and \<^verbatim>\<open>walk\<close>) as HOL functions.

  Modelling conventions.
  \<^item> A loosely typed scalar (a cell of a table, a configuration value, an assignment) is a
    \<open>pyval\<close>. A Python float is a \<open>pyfloat\<close>: not-a-number, an infinity, or a finite
    value held as a real. Truncation and comparison, the only float operations the id and
    distance paths use, are exact on floats.
  \<^item> Term scores and document weights are reals: rounding of the products and sums in
    \<^verbatim>\<open>aggregate_terms\<close> is not modelled, and the type excludes a not-a-number score.
  \<^item> Strings are ASCII byte strings; \<^verbatim>\<open>\d\<close> is \<open>0..9\<close> and whitespace is the ASCII
    whitespace of \<^verbatim>\<open>str.isspace\<close>. Python integers are unbounded (\<open>int\<close>); the
    interpreter's limit on the length of a decimal string passed to \<^verbatim>\<open>int()\<close> is not
    modelled.
  \<^item> A raised exception is the \<open>Inl\<close> of a sum; \<^verbatim>\<open>try/except\<close> blocks of the source are
    the places where an \<open>option\<close> is consumed.
  \<^item> A \<^verbatim>\<open>dict\<close> is an association list in insertion order (\<open>AList.update\<close> keeps the
    position of an existing key and appends a new one, as Python does).
\<close>

subsection \<open>Scalars\<close>

datatype pyfloat = FNan | FInf bool | FFin real

datatype pyval = PNone | PBool bool | PInt int | PFloat pyfloat | PStr string

datatype error = OverflowError | KeyError

text \<open>\<^verbatim>\<open>int(x)\<close> on a finite float truncates toward zero.\<close>

definition trunc_real :: "real \<Rightarrow> int" where
  "trunc_real x = (if 0 \<le> x then \<lfloor>x\<rfloor> else \<lceil>x\<rceil>)"

definition is_space :: "char \<Rightarrow> bool" where
  "is_space c = (of_char c \<in> {9, 10, 11, 12, 13, 28, 29, 30, 31, 32 :: nat})"

definition is_digit :: "char \<Rightarrow> bool" where
  "is_digit c = (48 \<le> (of_char c :: nat) \<and> (of_char c :: nat) \<le> 57)"

text \<open>\<^verbatim>\<open>str.strip()\<close>\<close>

definition strip :: "string \<Rightarrow> string" where
  "strip s = rev (dropWhile is_space (rev (dropWhile is_space s)))"

definition dec_val :: "string \<Rightarrow> int" where
  "dec_val ds = foldl (\<lambda>acc c. 10 * acc + (int (of_char c) - 48)) 0 ds"

text \<open>
  The body of a decimal literal accepted by \<^verbatim>\<open>int(str)\<close>: digits, with single
  underscores allowed between digits.
\<close>

fun digit_body :: "string \<Rightarrow> bool" where
  "digit_body [] = False"
| "digit_body [c] = is_digit c"
| "digit_body (c # d # cs) =
     (is_digit c \<and> (if d = CHR ''_'' then cs \<noteq> [] \<and> digit_body cs else digit_body (d # cs)))"

text \<open>
  \<^verbatim>\<open>int(s)\<close> for a string: surrounding whitespace is ignored, one sign is allowed;
  \<open>None\<close> stands for the \<^verbatim>\<open>ValueError\<close>.
\<close>

definition py_int_str :: "string \<Rightarrow> int option" where
  "py_int_str s =
     (case strip s of
        [] \<Rightarrow> None
      | c # cs \<Rightarrow>
          if c = CHR ''-'' then (if digit_body cs then Some (- dec_val (filter is_digit cs)) else None)
          else if c = CHR ''+'' then (if digit_body cs then Some (dec_val (filter is_digit cs)) else None)
          else if digit_body (c # cs) then Some (dec_val (filter is_digit (c # cs))) else None)"

text \<open>
  \<^verbatim>\<open>re.search(r"(-?\d+)$", t)\<close>: the leftmost start from which an optional minus and
  a non-empty run of digits reach the end of \<open>t\<close>. The source applies it to the stripped
  string, which has no trailing newline, so \<^verbatim>\<open>$\<close> is the end of the string.
\<close>

definition signed_digits :: "string \<Rightarrow> bool" where
  "signed_digits t =
     (case t of
        [] \<Rightarrow> False
      | c # cs \<Rightarrow> (c = CHR ''-'' \<and> cs \<noteq> [] \<and> list_all is_digit cs) \<or> list_all is_digit (c # cs))"

fun search_trailing :: "string \<Rightarrow> string option" where
  "search_trailing [] = None"
| "search_trailing (c # cs) =
     (if signed_digits (c # cs) then Some (c # cs) else search_trailing cs)"

text \<open>
  \<^verbatim>\<open>re.search(r"(-?\d+)", s)\<close>: the leftmost start at which a minus followed by a digit,
  or a digit, stands; the run of digits is taken greedily.
\<close>

fun search_first :: "string \<Rightarrow> string option" where
  "search_first [] = None"
| "search_first (c # cs) =
     (if c = CHR ''-'' \<and> cs \<noteq> [] \<and> is_digit (hd cs) then Some (c # takeWhile is_digit cs)
      else if is_digit c then Some (takeWhile is_digit (c # cs))
      else search_first cs)"

text \<open>
  \<^verbatim>\<open>_to_int\<close>. \<open>Inr None\<close> is the returned \<^verbatim>\<open>None\<close> (unrepresentable), \<open>Inl e\<close> an
  exception that leaves the function. A \<^verbatim>\<open>bool\<close> is a \<^verbatim>\<open>numbers.Integral\<close>.
\<close>

fun to_int :: "pyval \<Rightarrow> error + int option" where
  "to_int PNone = Inr None"
| "to_int (PBool b) = Inr (Some (if b then 1 else 0))"
| "to_int (PInt i) = Inr (Some i)"
| "to_int (PFloat FNan) = Inr None"
| "to_int (PFloat (FInf b)) = Inl OverflowError"
| "to_int (PFloat (FFin x)) = Inr (Some (trunc_real x))"
| "to_int (PStr s) =
     (case search_trailing (strip s) of
        Some g \<Rightarrow> Inr (py_int_str g)
      | None \<Rightarrow>
          (case search_first s of
             Some g \<Rightarrow> Inr (py_int_str g)
           | None \<Rightarrow> Inr (py_int_str s)))"


text \<open>
  What the interpreter supplies and the repository does not define: \<^verbatim>\<open>float(s)\<close> on a
  string (\<open>None\<close> for its \<^verbatim>\<open>ValueError\<close>), and the order in which a \<^verbatim>\<open>set\<close> of
  integers built from a list of keys is iterated (a hash order).
\<close>

record runtime =
  float_of_str :: "string \<Rightarrow> pyfloat option"
  set_iter :: "int list \<Rightarrow> int list"

text \<open>
  Iterating \<^verbatim>\<open>set(ks)\<close>: the distinct elements of \<open>ks\<close> in the order the runtime
  chooses. Whatever \<open>set_iter\<close> is, the result enumerates the set once: a choice that
  does not is replaced by the order of first occurrence.
\<close>

definition iter_set :: "runtime \<Rightarrow> int list \<Rightarrow> int list" where
  "iter_set rt ks =
     (if set (set_iter rt ks) = set ks \<and> distinct (set_iter rt ks) then set_iter rt ks
      else remdups ks)"

text \<open>\<^verbatim>\<open>float(v)\<close>; \<open>None\<close> stands for any exception, which every caller catches.\<close>

fun py_float :: "runtime \<Rightarrow> pyval \<Rightarrow> pyfloat option" where
  "py_float rt PNone = None"
| "py_float rt (PBool b) = Some (FFin (if b then 1 else 0))"
| "py_float rt (PInt i) = Some (FFin (of_int i))"
| "py_float rt (PFloat f) = Some f"
| "py_float rt (PStr s) = float_of_str rt s"

text \<open>\<^verbatim>\<open>int(v)\<close>; \<open>None\<close> stands for any exception, which the caller catches.\<close>

fun py_int :: "pyval \<Rightarrow> int option" where
  "py_int PNone = None"
| "py_int (PBool b) = Some (if b then 1 else 0)"
| "py_int (PInt i) = Some i"
| "py_int (PFloat FNan) = None"
| "py_int (PFloat (FInf b)) = None"
| "py_int (PFloat (FFin x)) = Some (trunc_real x)"
| "py_int (PStr s) = py_int_str s"

text \<open>\<^verbatim>\<open>a > b\<close> on floats; \<open>FInf True\<close> is the positive infinity.\<close>

fun float_gt :: "pyfloat \<Rightarrow> pyfloat \<Rightarrow> bool" where
  "float_gt FNan b = False"
| "float_gt a FNan = False"
| "float_gt (FInf pa) (FInf pb) = (pa \<and> \<not> pb)"
| "float_gt (FInf pa) (FFin y) = pa"
| "float_gt (FFin x) (FInf pb) = (\<not> pb)"
| "float_gt (FFin x) (FFin y) = (y < x)"

text \<open>\<^verbatim>\<open>v not in (None, '')\<close>\<close>

definition present :: "pyval \<Rightarrow> bool" where
  "present v = (v \<noteq> PNone \<and> v \<noteq> PStr [])"

subsection \<open>Configuration\<close>

definition top_count_of :: "pyval \<Rightarrow> nat" where
  "top_count_of top_terms =
     (case py_int top_terms of
        None \<Rightarrow> 10
      | Some n \<Rightarrow> if n \<le> 0 then 10 else nat n)"

definition max_distance_of :: "runtime \<Rightarrow> (string \<times> pyval) list option \<Rightarrow> pyfloat option" where
  "max_distance_of rt hierarchy_conf =
     (case hierarchy_conf of
        None \<Rightarrow> None
      | Some conf \<Rightarrow>
          if conf = [] then None
          else (case map_of conf ''max_distance'' of
                  None \<Rightarrow> None
                | Some raw \<Rightarrow> if present raw then py_float rt raw else None))"

definition outlier_topic :: int where
  "outlier_topic = - 1"

subsection \<open>Data model\<close>

text \<open>
  The dictionaries of the output, as records: \<open>doc_id\<close>, \<open>doc_weight\<close> are the keys
  \<^verbatim>\<open>id\<close>, \<^verbatim>\<open>weight\<close>; \<open>term_text\<close>, \<open>term_score\<close>, \<open>term_rank\<close> the keys \<^verbatim>\<open>term\<close>,
  \<^verbatim>\<open>score\<close>, \<^verbatim>\<open>rank\<close>; \<open>node_size\<close>, \<open>node_score\<close> the keys \<^verbatim>\<open>size\<close>, \<^verbatim>\<open>score\<close>.
\<close>

record doc =
  doc_id :: int
  doc_weight :: "real option"

record term_entry =
  term_text :: string
  term_score :: real
  term_rank :: nat

record node =
  topic_id :: int
  parent_id :: "int option"
  level :: nat
  label :: string
  node_size :: int
  node_score :: "pyfloat option"
  terms :: "term_entry list"
  docs :: "doc list"

type_synonym node_dict = "(int \<times> node) list"

definition dict_get :: "('k \<times> 'v list) list \<Rightarrow> 'k \<Rightarrow> 'v list" where
  "dict_get d k = (case map_of d k of None \<Rightarrow> [] | Some v \<Rightarrow> v)"

subsection \<open>Membership aggregation\<close>

definition weight_of :: "real list option list option \<Rightarrow> nat \<Rightarrow> real option" where
  "weight_of probabilities idx =
     (case probabilities of
        None \<Rightarrow> None
      | Some ps \<Rightarrow>
          if idx < length ps then
            (case ps ! idx of
               None \<Rightarrow> None
             | Some row_probs \<Rightarrow> if row_probs = [] then None else Some (fold max row_probs (hd row_probs)))
          else None)"

fun assign_loop ::
  "int list \<Rightarrow> real list option list option \<Rightarrow> nat \<Rightarrow> pyval list \<Rightarrow>
   (int \<times> doc list) list \<Rightarrow> error + (int \<times> doc list) list" where
  "assign_loop doc_lookup probabilities idx [] doc_members = Inr doc_members"
| "assign_loop doc_lookup probabilities idx (assigned # rest) doc_members =
     (case to_int assigned of
        Inl e \<Rightarrow> Inl e
      | Inr r \<Rightarrow>
          (case r of
             None \<Rightarrow> assign_loop doc_lookup probabilities (Suc idx) rest doc_members
           | Some t \<Rightarrow>
               if t = outlier_topic then assign_loop doc_lookup probabilities (Suc idx) rest doc_members
               else if length doc_lookup \<le> idx then
                 assign_loop doc_lookup probabilities (Suc idx) rest doc_members
               else
                 assign_loop doc_lookup probabilities (Suc idx) rest
                   (AList.update t
                      (dict_get doc_members t @
                         [\<lparr>doc_id = doc_lookup ! idx, doc_weight = weight_of probabilities idx\<rparr>])
                      doc_members)))"

definition build_doc_members ::
  "pyval list option \<Rightarrow> real list option list option \<Rightarrow> int list \<Rightarrow> error + (int \<times> doc list) list" where
  "build_doc_members topics probabilities doc_ids =
     (case assign_loop doc_ids probabilities 0 (case topics of None \<Rightarrow> [] | Some ts \<Rightarrow> ts) [] of
        Inl e \<Rightarrow> Inl e
      | Inr dm \<Rightarrow> Inr (map (\<lambda>(t, entries). (t, sort_key doc_id entries)) dm))"

subsection \<open>Summary rows\<close>

record info_row =
  Topic :: pyval
  Count :: pyval
  Name :: pyval
  Probability :: pyval

record summary =
  size_by_topic :: "(int \<times> int) list"
  prob_by_topic :: "(int \<times> pyfloat) list"
  label_by_topic :: "(int \<times> string) list"

definition info_step ::
  "runtime \<Rightarrow> (int \<times> doc list) list \<Rightarrow> info_row \<Rightarrow> int \<Rightarrow> int option \<Rightarrow> summary \<Rightarrow> summary" where
  "info_step rt doc_members row t count_val s =
     (let s1 = (case count_val of
                  None \<Rightarrow> s
                | Some c \<Rightarrow>
                    s\<lparr>size_by_topic :=
                        AList.update t (max c (int (length (dict_get doc_members t)))) (size_by_topic s)\<rparr>);
          s2 = (case Name row of
                  PStr name_val \<Rightarrow>
                    if strip name_val \<noteq> [] then
                      s1\<lparr>label_by_topic := AList.update t (strip name_val) (label_by_topic s1)\<rparr>
                    else s1
                | _ \<Rightarrow> s1)
      in if present (Probability row) then
           (case py_float rt (Probability row) of
              None \<Rightarrow> s2
            | Some p \<Rightarrow> s2\<lparr>prob_by_topic := AList.update t p (prob_by_topic s2)\<rparr>)
         else s2)"

fun info_loop ::
  "runtime \<Rightarrow> (int \<times> doc list) list \<Rightarrow> info_row list \<Rightarrow> summary \<Rightarrow> error + summary" where
  "info_loop rt doc_members [] s = Inr s"
| "info_loop rt doc_members (row # rows) s =
     (case to_int (Topic row) of
        Inl e \<Rightarrow> Inl e
      | Inr r \<Rightarrow>
          (case r of
             None \<Rightarrow> info_loop rt doc_members rows s
           | Some t \<Rightarrow>
               if t = outlier_topic then info_loop rt doc_members rows s
               else (case to_int (Count row) of
                       Inl e \<Rightarrow> Inl e
                     | Inr count_val \<Rightarrow>
                         info_loop rt doc_members rows (info_step rt doc_members row t count_val s))))"

definition build_summary ::
  "runtime \<Rightarrow> (int \<times> doc list) list \<Rightarrow> info_row list option \<Rightarrow> error + summary" where
  "build_summary rt doc_members topic_info =
     info_loop rt doc_members (case topic_info of None \<Rightarrow> [] | Some rows \<Rightarrow> rows)
       \<lparr>size_by_topic = [], prob_by_topic = [], label_by_topic = []\<rparr>"


subsection \<open>Leaf nodes\<close>

text \<open>The decimal text of an integer, for \<^verbatim>\<open>f'Topic {topic_id}'\<close>.\<close>

fun show_nat :: "nat \<Rightarrow> string" where
  "show_nat n = (if n < 10 then [char_of (48 + n)] else show_nat (n div 10) @ [char_of (48 + n mod 10)])"

definition show_int :: "int \<Rightarrow> string" where
  "show_int i = (if i < 0 then CHR ''-'' # show_nat (nat (- i)) else show_nat (nat i))"

definition default_label :: "int \<Rightarrow> string" where
  "default_label t = ''Topic '' @ show_int t"

text \<open>
  The non-empty pieces of \<^verbatim>\<open>re.split(r"[_\s]+", label_val)\<close>: the maximal runs of
  characters that are neither an underscore nor whitespace.
\<close>

definition is_sep :: "char \<Rightarrow> bool" where
  "is_sep c = (c = CHR ''_'' \<or> is_space c)"

fun split_tokens :: "string \<Rightarrow> string \<Rightarrow> string list" where
  "split_tokens cur [] = (if cur = [] then [] else [cur])"
| "split_tokens cur (c # cs) =
     (if is_sep c then (if cur = [] then split_tokens [] cs else cur # split_tokens [] cs)
      else split_tokens (cur @ [c]) cs)"

text \<open>
  The loop over \<^verbatim>\<open>enumerate(topic_terms, start=1)\<close>. The model of the topic model is
  the function \<open>get_topic\<close>, typed as the library documents it: a list of pairs of a
  word and a score, empty for an unknown topic. An entry whose stripped word is empty
  is skipped and its rank with it.
\<close>

fun terms_loop :: "nat \<Rightarrow> nat \<Rightarrow> (string \<times> real) list \<Rightarrow> term_entry list \<Rightarrow> term_entry list" where
  "terms_loop top_count rank [] acc = acc"
| "terms_loop top_count rank (pair # rest) acc =
     (let term_text = strip (fst pair) in
      if term_text = [] then terms_loop top_count (Suc rank) rest acc
      else
        (let acc' = acc @ [\<lparr>term_text = term_text, term_score = snd pair, term_rank = rank\<rparr>] in
         if top_count \<le> length acc' then acc' else terms_loop top_count (Suc rank) rest acc'))"

definition fallback_terms :: "nat \<Rightarrow> string \<Rightarrow> term_entry list" where
  "fallback_terms top_count label_val =
     map (\<lambda>(rank, token). \<lparr>term_text = token, term_score = 0, term_rank = rank\<rparr>)
       (zip [1 ..< Suc (length (take top_count (split_tokens [] label_val)))]
            (take top_count (split_tokens [] label_val)))"

definition leaf_terms :: "(int \<Rightarrow> (string \<times> real) list) \<Rightarrow> nat \<Rightarrow> int \<Rightarrow> string \<Rightarrow> term_entry list" where
  "leaf_terms get_topic top_count t label_val =
     (let ts = terms_loop top_count 1 (get_topic t) [] in
      if ts = [] then fallback_terms top_count label_val else ts)"

definition leaf_topic_ids :: "summary \<Rightarrow> (int \<times> doc list) list \<Rightarrow> int list" where
  "leaf_topic_ids s doc_members =
     sort (remdups (filter (\<lambda>t. t \<noteq> outlier_topic)
                      (map fst (size_by_topic s) @ map fst doc_members)))"

definition leaf_size :: "summary \<Rightarrow> (int \<times> doc list) list \<Rightarrow> int \<Rightarrow> int" where
  "leaf_size s doc_members t =
     (case map_of (size_by_topic s) t of
        None \<Rightarrow> int (length (dict_get doc_members t))
      | Some size_val \<Rightarrow> max size_val (int (length (dict_get doc_members t))))"

definition leaf_node ::
  "(int \<Rightarrow> (string \<times> real) list) \<Rightarrow> nat \<Rightarrow> summary \<Rightarrow> (int \<times> doc list) list \<Rightarrow> int \<Rightarrow> node" where
  "leaf_node get_topic top_count s doc_members t =
     (let label_val = (case map_of (label_by_topic s) t of None \<Rightarrow> default_label t | Some l \<Rightarrow> l) in
      \<lparr>topic_id = t, parent_id = None, level = 0, label = label_val,
       node_size = leaf_size s doc_members t,
       node_score = map_of (prob_by_topic s) t,
       terms = leaf_terms get_topic top_count t label_val,
       docs = dict_get doc_members t\<rparr>)"

definition build_leaves ::
  "(int \<Rightarrow> (string \<times> real) list) \<Rightarrow> nat \<Rightarrow> summary \<Rightarrow> (int \<times> doc list) list \<Rightarrow> node_dict" where
  "build_leaves get_topic top_count s doc_members =
     fold (\<lambda>t nodes. AList.update t (leaf_node get_topic top_count s doc_members t) nodes)
       (leaf_topic_ids s doc_members) []"

subsection \<open>Merge graph\<close>

record hier_row =
  Parent_ID :: pyval
  Child_Left_ID :: pyval
  Child_Right_ID :: pyval
  Distance :: pyval
  Parent_Name :: pyval

record merge_graph =
  parent_children :: "(int \<times> int list) list"
  parent_labels :: "(int \<times> string) list"
  children_seen :: "int set"

definition parse_distance :: "runtime \<Rightarrow> pyval \<Rightarrow> pyfloat option" where
  "parse_distance rt distance_val = (if present distance_val then py_float rt distance_val else None)"

text \<open>
  \<^verbatim>\<open>max_distance is not None and distance is not None and distance > max_distance\<close>
\<close>

definition beyond_cutoff :: "pyfloat option \<Rightarrow> pyfloat option \<Rightarrow> bool" where
  "beyond_cutoff max_distance distance =
     (case max_distance of
        None \<Rightarrow> False
      | Some m \<Rightarrow> (case distance of None \<Rightarrow> False | Some d \<Rightarrow> float_gt d m))"

definition append_absent :: "int \<Rightarrow> int list \<Rightarrow> int list" where
  "append_absent child cs = (if child \<in> set cs then cs else cs @ [child])"

definition add_merge :: "hier_row \<Rightarrow> int \<Rightarrow> int \<Rightarrow> int \<Rightarrow> merge_graph \<Rightarrow> merge_graph" where
  "add_merge row p l r g =
     (let pc = (case map_of (parent_children g) p of
                  Some cs \<Rightarrow> AList.update p (append_absent r (append_absent l cs)) (parent_children g)
                | None \<Rightarrow> AList.update p [l, r] (parent_children g));
          g1 = g\<lparr>parent_children := pc, children_seen := insert l (insert r (children_seen g))\<rparr>
      in (case Parent_Name row of
            PStr parent_name \<Rightarrow>
              if strip parent_name \<noteq> [] then
                g1\<lparr>parent_labels := AList.update p (strip parent_name) (parent_labels g1)\<rparr>
              else g1
          | _ \<Rightarrow> g1))"

text \<open>One row of the merge table: the body of the loop over \<^verbatim>\<open>hierarchy_df.iterrows()\<close>.\<close>

definition hier_step :: "runtime \<Rightarrow> pyfloat option \<Rightarrow> hier_row \<Rightarrow> merge_graph \<Rightarrow> error + merge_graph" where
  "hier_step rt max_distance row g =
     (case to_int (Parent_ID row) of
        Inl e \<Rightarrow> Inl e
      | Inr parent \<Rightarrow>
          (case to_int (Child_Left_ID row) of
             Inl e \<Rightarrow> Inl e
           | Inr left \<Rightarrow>
               (case to_int (Child_Right_ID row) of
                  Inl e \<Rightarrow> Inl e
                | Inr right \<Rightarrow>
                    (case (parent, left, right) of
                       (Some p, Some l, Some r) \<Rightarrow>
                         if beyond_cutoff max_distance (parse_distance rt (Distance row)) then Inr g
                         else Inr (add_merge row p l r g)
                     | _ \<Rightarrow> Inr g))))"

fun hier_loop :: "runtime \<Rightarrow> pyfloat option \<Rightarrow> hier_row list \<Rightarrow> merge_graph \<Rightarrow> error + merge_graph" where
  "hier_loop rt max_distance [] g = Inr g"
| "hier_loop rt max_distance (row # rows) g =
     (case hier_step rt max_distance row g of
        Inl e \<Rightarrow> Inl e
      | Inr g' \<Rightarrow> hier_loop rt max_distance rows g')"

definition build_merge_graph ::
  "runtime \<Rightarrow> pyfloat option \<Rightarrow> hier_row list option \<Rightarrow> error + merge_graph" where
  "build_merge_graph rt max_distance hierarchy_df =
     hier_loop rt max_distance (case hierarchy_df of None \<Rightarrow> [] | Some rows \<Rightarrow> rows)
       \<lparr>parent_children = [], parent_labels = [], children_seen = {}\<rparr>"

text \<open>The loop \<^verbatim>\<open>for parent_id in parent_children\<close> that materialises the parents.\<close>

definition parent_node :: "merge_graph \<Rightarrow> int \<Rightarrow> node_dict \<Rightarrow> node_dict" where
  "parent_node g p nodes =
     (case map_of nodes p of
        None \<Rightarrow>
          AList.update p
            \<lparr>topic_id = p, parent_id = None, level = 0,
             label = (case map_of (parent_labels g) p of None \<Rightarrow> default_label p | Some l \<Rightarrow> l),
             node_size = 0, node_score = None, terms = [], docs = []\<rparr> nodes
      | Some n \<Rightarrow>
          AList.update p
            ((case map_of (parent_labels g) p of
                None \<Rightarrow> n
              | Some l \<Rightarrow> if l \<noteq> [] then n\<lparr>label := l\<rparr> else n)\<lparr>docs := []\<rparr>) nodes)"

definition add_parents :: "merge_graph \<Rightarrow> node_dict \<Rightarrow> node_dict" where
  "add_parents g nodes = fold (parent_node g) (map fst (parent_children g)) nodes"

text \<open>
  The roots: the parents that are no row's child, in the iteration order of the set of
  parent ids; when there is none and a parent exists, the largest parent id.
\<close>

definition find_roots :: "runtime \<Rightarrow> merge_graph \<Rightarrow> int list" where
  "find_roots rt g =
     (let parent_ids = map fst (parent_children g);
          roots = filter (\<lambda>pid. pid \<notin> children_seen g) (iter_set rt parent_ids)
      in if roots = [] \<and> parent_ids \<noteq> [] then [last (sort parent_ids)] else roots)"


subsection \<open>Aggregation of terms\<close>

fun add_scores :: "int \<Rightarrow> term_entry list \<Rightarrow> (string \<times> real) list \<Rightarrow> (string \<times> real) list" where
  "add_scores weight [] score_map = score_map"
| "add_scores weight (t # ts) score_map =
     (let term_key = strip (term_text t) in
      if term_key = [] then add_scores weight ts score_map
      else add_scores weight ts
             (AList.update term_key
                ((case map_of score_map term_key of None \<Rightarrow> 0 | Some v \<Rightarrow> v) + term_score t * of_int weight)
                score_map))"

fun score_loop :: "node_dict \<Rightarrow> int list \<Rightarrow> (string \<times> real) list \<Rightarrow> (string \<times> real) list" where
  "score_loop nodes [] score_map = score_map"
| "score_loop nodes (child_id # rest) score_map =
     (case map_of nodes child_id of
        None \<Rightarrow> score_loop nodes rest score_map
      | Some child \<Rightarrow> score_loop nodes rest (add_scores (max (node_size child) 1) (terms child) score_map))"

text \<open>
  \<^verbatim>\<open>sorted(..., key=lambda kv: kv[1], reverse=True)\<close> is stable: entries of equal score
  keep their insertion order, as \<open>sort_key\<close> on the negated score does. The totals are
  reals here, which are totally ordered; the order in which the source leaves a list one
  of whose totals is not a number is outside the model, and nothing below speaks of it.
\<close>

definition aggregate_terms :: "nat \<Rightarrow> node_dict \<Rightarrow> int list \<Rightarrow> term_entry list" where
  "aggregate_terms top_count nodes child_ids =
     (let ordered = sort_key (\<lambda>kv. - snd kv) (score_loop nodes child_ids []);
          top = take top_count ordered
      in map (\<lambda>(rank, kv). \<lparr>term_text = fst kv, term_score = snd kv, term_rank = rank\<rparr>)
           (zip [1 ..< Suc (length top)] top))"

subsection \<open>The walk\<close>

record walk_state =
  nodes :: node_dict
  visited :: "int set"

definition stub :: "int \<Rightarrow> int \<Rightarrow> nat \<Rightarrow> node" where
  "stub child_id node_id lvl =
     \<lparr>topic_id = child_id, parent_id = Some node_id, level = Suc lvl, label = default_label child_id,
      node_size = 0, node_score = None, terms = [], docs = []\<rparr>"

text \<open>The first statement of the loop over the children: create the stub or set the parent.\<close>

definition attach :: "int \<Rightarrow> nat \<Rightarrow> int \<Rightarrow> walk_state \<Rightarrow> walk_state" where
  "attach node_id lvl child_id st =
     (case map_of (nodes st) child_id of
        None \<Rightarrow> st\<lparr>nodes := AList.update child_id (stub child_id node_id lvl) (nodes st)\<rparr>
      | Some c \<Rightarrow> st\<lparr>nodes := AList.update child_id (c\<lparr>parent_id := Some node_id\<rparr>) (nodes st)\<rparr>)"

definition is_prefix :: "string \<Rightarrow> string \<Rightarrow> bool" where
  "is_prefix p s = (take (length p) s = p)"

fun join_space :: "string list \<Rightarrow> string" where
  "join_space [] = []"
| "join_space [w] = w"
| "join_space (w # ws) = w @ CHR '' '' # join_space ws"

text \<open>What \<^verbatim>\<open>walk\<close> does to a node after its children: size, terms, label.\<close>

definition finish_node ::
  "(int \<times> string) list \<Rightarrow> nat \<Rightarrow> node_dict \<Rightarrow> int \<Rightarrow> int list \<Rightarrow> int \<Rightarrow> node \<Rightarrow> node" where
  "finish_node labels top_count nds node_id children total_size n =
     (let n1 = (if docs n = [] then n\<lparr>node_size := total_size\<rparr> else n);
          n2 = (if terms n1 = [] then n1\<lparr>terms := aggregate_terms top_count nds children\<rparr> else n1)
      in (case map_of labels node_id of
            Some label_override \<Rightarrow>
              if label_override \<noteq> [] then n2\<lparr>label := label_override\<rparr>
              else if label n2 = [] \<or> is_prefix ''Topic '' (label n2) then
                (let label_terms = filter (\<lambda>t. t \<noteq> []) (map term_text (take 4 (terms n2))) in
                 if label_terms \<noteq> [] then n2\<lparr>label := join_space label_terms\<rparr>
                 else n2\<lparr>label := default_label node_id\<rparr>)
              else n2
          | None \<Rightarrow>
              if label n2 = [] \<or> is_prefix ''Topic '' (label n2) then
                (let label_terms = filter (\<lambda>t. t \<noteq> []) (map term_text (take 4 (terms n2))) in
                 if label_terms \<noteq> [] then n2\<lparr>label := join_space label_terms\<rparr>
                 else n2\<lparr>label := default_label node_id\<rparr>)
              else n2))"

text \<open>
  \<^verbatim>\<open>walk(node_id, level)\<close> and its loop over the children. The closure's variables
  \<^verbatim>\<open>parent_children\<close>, \<^verbatim>\<open>parent_labels\<close> and \<^verbatim>\<open>top_count\<close> are the first three
  arguments; \<^verbatim>\<open>nodes\<close> and \<^verbatim>\<open>visited\<close>, which the walk mutates, are the state. The
  node objects are mutated in place and never replaced, so reading the node again from
  the state after the loop is reading the source's alias \<^verbatim>\<open>node\<close>.
\<close>

function walk ::
    "(int \<times> int list) list \<Rightarrow> (int \<times> string) list \<Rightarrow> nat \<Rightarrow> int \<Rightarrow> nat \<Rightarrow> walk_state \<Rightarrow>
     error + (int \<times> walk_state)"
  and walk_children ::
    "(int \<times> int list) list \<Rightarrow> (int \<times> string) list \<Rightarrow> nat \<Rightarrow> int \<Rightarrow> nat \<Rightarrow> int list \<Rightarrow> int \<Rightarrow>
     walk_state \<Rightarrow> error + (int \<times> walk_state)" where
  "walk pc labels top_count node_id lvl st =
     (if node_id \<in> visited st then
        (case map_of (nodes st) node_id of
           None \<Rightarrow> Inl KeyError
         | Some n \<Rightarrow> Inr (node_size n, st))
      else
        (case map_of (nodes st) node_id of
           None \<Rightarrow> Inl KeyError
         | Some n \<Rightarrow>
             (let st1 = st\<lparr>nodes := AList.update node_id (n\<lparr>level := lvl\<rparr>) (nodes st),
                          visited := insert node_id (visited st)\<rparr>
              in if dict_get pc node_id = [] then Inr (node_size n, st1)
                 else
                   (case walk_children pc labels top_count node_id lvl (dict_get pc node_id) 0 st1 of
                      Inl e \<Rightarrow> Inl e
                    | Inr res \<Rightarrow>
                        (case map_of (nodes (snd res)) node_id of
                           None \<Rightarrow> Inl KeyError
                         | Some n' \<Rightarrow>
                             (let n'' = finish_node labels top_count (nodes (snd res)) node_id
                                          (dict_get pc node_id) (fst res) n'
                              in Inr (node_size n'',
                                      (snd res)\<lparr>nodes := AList.update node_id n'' (nodes (snd res))\<rparr>)))))))"
| "walk_children pc labels top_count node_id lvl [] total_size st = Inr (total_size, st)"
| "walk_children pc labels top_count node_id lvl (child_id # rest) total_size st =
     (case walk pc labels top_count child_id (Suc lvl) (attach node_id lvl child_id st) of
        Inl e \<Rightarrow> Inl e
      | Inr res \<Rightarrow>
          walk_children pc labels top_count node_id lvl rest (total_size + max (fst res) 0) (snd res))"
  by pat_completeness auto


text \<open>
  Termination of the walk: every call that goes on to the children adds a key of
  \<^verbatim>\<open>parent_children\<close> to \<^verbatim>\<open>visited\<close>, and no call removes one.
\<close>

lemma visited_attach [simp]: "visited (attach node_id lvl child_id st) = visited st"
  by (simp add: attach_def split: option.splits)

lemma walk_dom_visited_mono:
  "walk_walk_children_dom (Inl (pc, labels, tc, nid, lvl, st)) \<Longrightarrow>
     walk pc labels tc nid lvl st = Inr res \<Longrightarrow> visited st \<subseteq> visited (snd res)"
  "walk_walk_children_dom (Inr (pc, labels, tc, nid, lvl, cs, tot, st)) \<Longrightarrow>
     walk_children pc labels tc nid lvl cs tot st = Inr res \<Longrightarrow> visited st \<subseteq> visited (snd res)"
proof (induction pc labels tc nid lvl st and pc labels tc nid lvl cs tot st arbitrary: res and res
       rule: walk_walk_children.pinduct)
  case (1 pc labels tc nid lvl st)
  show ?case using "1.prems" "1.IH"
    by (fastforce simp add: walk.psimps[OF "1.hyps"] Let_def split: if_splits option.splits sum.splits)
next
  case (2 pc labels top_count node_id lvl total_size st)
  then show ?case by (auto simp add: walk_children.psimps)
next
  case (3 pc labels top_count node_id lvl child_id rest total_size st)
  from "3.prems" obtain b where
    b: "walk pc labels top_count child_id (Suc lvl) (attach node_id lvl child_id st) = Inr b"
    and r: "walk_children pc labels top_count node_id lvl rest (total_size + max (fst b) 0) (snd b) = Inr res"
    by (simp add: walk_children.psimps(2)[OF "3.hyps"] split: sum.splits)
  from "3.IH"(1)[OF b] "3.IH"(2)[OF b r] show ?case by simp
qed

definition walk_size ::
  "((int \<times> int list) list \<times> (int \<times> string) list \<times> nat \<times> int \<times> nat \<times> walk_state) +
   ((int \<times> int list) list \<times> (int \<times> string) list \<times> nat \<times> int \<times> nat \<times> int list \<times> int \<times> walk_state)
   \<Rightarrow> nat \<times> nat" where
  "walk_size x =
     (case x of
        Inl (pc, labels, tc, nid, lvl, st) \<Rightarrow> (card (set (map fst pc) - visited st), 0)
      | Inr (pc, labels, tc, nid, lvl, cs, tot, st) \<Rightarrow>
          (card (set (map fst pc) - visited st), Suc (length cs)))"

lemma dict_get_key: "dict_get pc k \<noteq> [] \<Longrightarrow> k \<in> set (map fst pc)"
  by (force simp: dict_get_def split: option.splits dest!: map_of_SomeD)

lemma card_unvisited_less:
  "k \<in> set (map fst pc) \<Longrightarrow> k \<notin> V \<Longrightarrow>
     card (set (map fst pc) - insert k V) < card (set (map fst pc) - V)"
  by (rule psubset_card_mono) auto

lemma card_unvisited_le:
  "V \<subseteq> V' \<Longrightarrow> card (set (map fst pc) - V') \<le> card (set (map fst pc) - V)"
  by (rule card_mono) auto

termination walk
proof (relation "inv_image (less_than <*lex*> less_than) walk_size", goal_cases)
  case 1
  show ?case by (intro wf_inv_image wf_lex_prod wf_less_than)
next
  case (2 pc labels top_count node_id lvl st x2 x)
  then show ?case
    using card_unvisited_less[OF dict_get_key, of pc node_id "visited st"]
    by (simp add: walk_size_def)
next
  case (3 pc labels top_count node_id lvl child_id rest total_size st)
  show ?case by (simp add: walk_size_def)
next
  case (4 pc labels top_count node_id lvl child_id rest total_size st x2)
  then show ?case
    using card_unvisited_le[OF walk_dom_visited_mono(1)[OF 4(2) 4(1)], of pc]
    by (auto simp add: walk_size_def)
qed

declare walk.simps [simp del]

subsection \<open>The walks from the roots, the output and the diagnostics\<close>

fun walk_roots ::
  "(int \<times> int list) list \<Rightarrow> (int \<times> string) list \<Rightarrow> nat \<Rightarrow> int list \<Rightarrow> walk_state \<Rightarrow>
   error + walk_state" where
  "walk_roots pc labels top_count [] st = Inr st"
| "walk_roots pc labels top_count (root_id # rest) st =
     (case map_of (nodes st) root_id of
        None \<Rightarrow> walk_roots pc labels top_count rest st
      | Some n \<Rightarrow>
          (case walk pc labels top_count root_id 0
                  (st\<lparr>nodes := AList.update root_id (n\<lparr>parent_id := None\<rparr>) (nodes st)\<rparr>) of
             Inl e \<Rightarrow> Inl e
           | Inr res \<Rightarrow> walk_roots pc labels top_count rest (snd res)))"

fun walk_unvisited ::
  "(int \<times> int list) list \<Rightarrow> (int \<times> string) list \<Rightarrow> nat \<Rightarrow> int list \<Rightarrow> walk_state \<Rightarrow>
   error + walk_state" where
  "walk_unvisited pc labels top_count [] st = Inr st"
| "walk_unvisited pc labels top_count (node_id # rest) st =
     (if node_id \<in> visited st then walk_unvisited pc labels top_count rest st
      else (case walk pc labels top_count node_id 0 st of
              Inl e \<Rightarrow> Inl e
            | Inr res \<Rightarrow> walk_unvisited pc labels top_count rest (snd res)))"

definition walk_all ::
  "(int \<times> int list) list \<Rightarrow> (int \<times> string) list \<Rightarrow> nat \<Rightarrow> int list \<Rightarrow> node_dict \<Rightarrow>
   error + walk_state" where
  "walk_all pc labels top_count roots nodes0 =
     (if roots \<noteq> [] then walk_roots pc labels top_count roots \<lparr>nodes = nodes0, visited = {}\<rparr>
      else walk_unvisited pc labels top_count (map fst nodes0) \<lparr>nodes = nodes0, visited = {}\<rparr>)"

record stats =
  parents_expected :: nat
  parents_emitted :: nat
  roots :: nat
  leaf_count :: nat
  max_level :: nat
  has_links :: bool

definition order_nodes :: "node_dict \<Rightarrow> node list" where
  "order_nodes nds = sort_key (\<lambda>item. (level item, topic_id item)) (map snd nds)"

definition make_stats :: "merge_graph \<Rightarrow> int list \<Rightarrow> node list \<Rightarrow> stats" where
  "make_stats g root_ids ordered_nodes =
     \<lparr>parents_expected = length (map fst (parent_children g)),
      parents_emitted =
        length (filter (\<lambda>n. topic_id n \<in> set (map fst (parent_children g))) ordered_nodes),
      roots = length root_ids,
      leaf_count = length (filter (\<lambda>n. docs n \<noteq> []) ordered_nodes),
      max_level = fold max (map level ordered_nodes) 0,
      has_links = list_ex (\<lambda>n. parent_id n \<noteq> None) ordered_nodes\<rparr>"

text \<open>
  \<^verbatim>\<open>build_topic_tree\<close>. The loop that normalises the fields of the finished nodes
  (\<^verbatim>\<open>int(...)\<close>, \<^verbatim>\<open>float(...)\<close> on values that are already of that type) is the
  identity on the typed records and has no counterpart here.
\<close>

definition build_topic_tree ::
  "runtime \<Rightarrow> (int \<Rightarrow> (string \<times> real) list) \<Rightarrow> info_row list option \<Rightarrow> hier_row list option \<Rightarrow>
   pyval list option \<Rightarrow> real list option list option \<Rightarrow> int list \<Rightarrow> pyval \<Rightarrow>
   (string \<times> pyval) list option \<Rightarrow> error + (node list \<times> stats)" where
  "build_topic_tree rt get_topic topic_info hierarchy_df topics probabilities doc_ids top_terms
       hierarchy_conf =
     (case build_doc_members topics probabilities doc_ids of
        Inl e \<Rightarrow> Inl e
      | Inr doc_members \<Rightarrow>
          (case build_summary rt doc_members topic_info of
             Inl e \<Rightarrow> Inl e
           | Inr s \<Rightarrow>
               (case build_merge_graph rt (max_distance_of rt hierarchy_conf) hierarchy_df of
                  Inl e \<Rightarrow> Inl e
                | Inr g \<Rightarrow>
                    (case walk_all (parent_children g) (parent_labels g) (top_count_of top_terms)
                            (find_roots rt g)
                            (add_parents g
                               (build_leaves get_topic (top_count_of top_terms) s doc_members)) of
                       Inl e \<Rightarrow> Inl e
                     | Inr st \<Rightarrow>
                         Inr (order_nodes (nodes st),
                              make_stats g (find_roots rt g) (order_nodes (nodes st)))))))"


text \<open>
  A runtime for the evaluations at concrete inputs: no string parses as a float and a set
  is iterated in the order of first occurrence. Each of these evaluations has at most one
  root candidate, so the order of iteration plays no part in it.
\<close>

definition plain_runtime :: runtime where
  "plain_runtime = \<lparr>float_of_str = (\<lambda>s. None), set_iter = remdups\<rparr>"

text \<open>A merge-table row with integer ids, no distance and no parent name.\<close>

definition merge_row :: "int \<Rightarrow> int \<Rightarrow> int \<Rightarrow> hier_row" where
  "merge_row p l r =
     \<lparr>Parent_ID = PInt p, Child_Left_ID = PInt l, Child_Right_ID = PInt r, Distance = PNone,
      Parent_Name = PNone\<rparr>"


text \<open>
  The invariant of the loop over the merge table: \<^verbatim>\<open>children_seen\<close> holds exactly the
  ids that stand in some list of \<^verbatim>\<open>parent_children\<close>.
\<close>

definition graph_ok :: "merge_graph \<Rightarrow> bool" where
  "graph_ok g =
     (\<forall>c. c \<in> children_seen g \<longleftrightarrow>
          (\<exists>p cs. map_of (parent_children g) p = Some cs \<and> c \<in> set cs))"

text \<open>
  The two counts the specification of a leaf's size speaks of, stated on the inputs:
  the count reported for a cluster by the summary rows (that of the last row of the
  cluster whose count is representable), and the observed membership (the number of
  assignments to the cluster among the positions that have a document id).
\<close>

definition reported_count :: "info_row list \<Rightarrow> int \<Rightarrow> int option" where
  "reported_count rows t =
     foldl (\<lambda>acc row.
              if to_int (Topic row) = Inr (Some t)
              then (case to_int (Count row) of Inr (Some c) \<Rightarrow> Some c | _ \<Rightarrow> acc)
              else acc) None rows"

definition membership_count :: "pyval list \<Rightarrow> int list \<Rightarrow> int \<Rightarrow> nat" where
  "membership_count topics doc_ids t =
     length (filter (\<lambda>assigned. to_int assigned = Inr (Some t)) (take (length doc_ids) topics))"

text \<open>
  The two orders in which the terms of a node can stand. Aggregated terms are sorted by
  non-increasing score and ranked \<open>1..n\<close>; the terms a leaf takes from the topic model
  keep the order and the ranks of the model's list, so their ranks are positive and
  strictly increasing.
\<close>

definition aggregated_ok :: "term_entry list \<Rightarrow> bool" where
  "aggregated_ok ts =
     (sorted_wrt (\<lambda>a b. b \<le> a) (map term_score ts) \<and>
      map term_rank ts = [1 ..< Suc (length ts)])"

definition upstream_ok :: "term_entry list \<Rightarrow> bool" where
  "upstream_ok ts =
     (sorted_wrt (\<lambda>a b. a < b) (map term_rank ts) \<and> list_all (\<lambda>t. 1 \<le> term_rank t) ts)"


definition node_ok :: "(int \<Rightarrow> (string \<times> real) list) \<Rightarrow> nat \<Rightarrow> int \<Rightarrow> node \<Rightarrow> bool" where
  "node_ok get_topic top_count k n =
     (topic_id n = k \<and> length (terms n) \<le> top_count \<and>
      (aggregated_ok (terms n) \<or>
       (upstream_ok (terms n) \<and> (\<exists>lbl. terms n = leaf_terms get_topic top_count k lbl))))"









section \<open>Properties\<close>

subsection \<open>Auxiliary facts\<close>

lemma set_iter_set [simp]: "set (iter_set rt ks) = set ks"
  by (simp add: iter_set_def)

lemma distinct_iter_set [simp]: "distinct (iter_set rt ks)"
  by (simp add: iter_set_def)

lemma iter_set_Nil [simp]: "iter_set rt [] = []"
  using set_iter_set[of rt "[]"] by (simp del: set_iter_set)

lemma to_int_returns:
  "(\<forall>b. v \<noteq> PFloat (FInf b)) \<Longrightarrow> \<exists>r. to_int v = Inr r"
proof (cases v)
  case (PFloat f)
  assume "\<forall>b. v \<noteq> PFloat (FInf b)"
  with PFloat show ?thesis by (cases f) auto
qed (auto split: option.splits)

subsection \<open>The identifier normaliser\<close>

text \<open>
  C3. The claim is that \<^verbatim>\<open>_to_int\<close> returns an integer or \<^verbatim>\<open>None\<close> for every scalar
  and that no exception leaves it. The source tests a float for not-a-number only and
  then calls \<^verbatim>\<open>int(val)\<close> outside any \<^verbatim>\<open>try\<close>: on either infinity this raises
  \<^verbatim>\<open>OverflowError\<close>, which leaves the function (lemma \<open>to_int_returns\<close> shows that
  these are the only such inputs of the model).
\<close>

theorem to_int_infinity_raises:
  "to_int (PFloat (FInf True)) = Inl OverflowError \<and> to_int (PFloat (FInf False)) = Inl OverflowError"
  by simp

subsection \<open>Scenario without a merge table\<close>

text \<open>
  C2. Document ids \<open>[1,2,3,4]\<close>, assignments \<open>[-1,0,0,1]\<close>, no probabilities, no summary
  rows and no merge table: whatever the topic model, the configuration and the runtime
  are, the output is the leaf 0 with the documents 2 and 3 and size 2, then the leaf 1 with
  the document 4 and size 1, and the diagnostics have \<open>roots = 0\<close>, \<open>has_links = False\<close>,
  \<open>leaf_count = 2\<close>.
\<close>

theorem scenario_without_merge_table:
  "\<exists>ns st.
     build_topic_tree rt get_topic None None (Some [PInt (- 1), PInt 0, PInt 0, PInt 1]) None
       [1, 2, 3, 4] top_terms hierarchy_conf = Inr (ns, st) \<and>
     map (\<lambda>n. (topic_id n, docs n, node_size n)) ns =
       [(0, [\<lparr>doc_id = 2, doc_weight = None\<rparr>, \<lparr>doc_id = 3, doc_weight = None\<rparr>], 2),
        (1, [\<lparr>doc_id = 4, doc_weight = None\<rparr>], 1)] \<and>
     roots st = 0 \<and> \<not> has_links st \<and> leaf_count st = 2"
  by (simp add: build_topic_tree_def build_doc_members_def outlier_topic_def dict_get_def
      weight_of_def build_summary_def build_merge_graph_def find_roots_def walk_all_def
      build_leaves_def leaf_topic_ids_def leaf_node_def leaf_size_def add_parents_def walk.simps
      order_nodes_def make_stats_def Let_def)

subsection \<open>A child under two parents\<close>

text \<open>
  C8. The claim is that a child listed under two parents is emitted with its first-seen
  parent. In the merge table \<open>5 \<leftarrow> (3, 4)\<close>, \<open>3 \<leftarrow> (0, 1)\<close>, \<open>4 \<leftarrow> (0, 2)\<close> the only root is 5
  and the child 0 is seen first under 3, in the table as in the walk; the walk assigns
  \<^verbatim>\<open>parent_id\<close> before it tests \<^verbatim>\<open>visited\<close>, so the later parent 4 overwrites the
  first and the node 0 is emitted with parent 4.
\<close>

theorem shared_child_gets_last_parent:
  "(case build_topic_tree plain_runtime (\<lambda>t. []) None
           (Some [merge_row 5 3 4, merge_row 3 0 1, merge_row 4 0 2]) None None [] (PInt 10) None of
      Inl e \<Rightarrow> []
    | Inr out \<Rightarrow> map (\<lambda>n. (topic_id n, parent_id n, level n)) (fst out)) =
   [(5, None, 0), (3, Some 5, 1), (4, Some 5, 1), (0, Some 4, 2), (1, Some 3, 2), (2, Some 4, 2)]"
  by code_simp

subsection \<open>The outlier id\<close>

text \<open>
  C9. The claim is that no node with the outlier id \<open>-1\<close> is ever emitted. The assignment
  and summary paths drop the id; the merge-table path does not: for the single row
  \<open>2 \<leftarrow> (-1, 0)\<close> the walk creates a placeholder node for the child \<open>-1\<close>.
\<close>

theorem outlier_emitted_from_merge_table:
  "(case build_topic_tree plain_runtime (\<lambda>t. []) None (Some [merge_row 2 (- 1) 0]) None None []
           (PInt 10) None of
      Inl e \<Rightarrow> []
    | Inr out \<Rightarrow> map (\<lambda>n. (topic_id n, parent_id n)) (fst out)) =
   [(2, None), (- 1, Some 2), (0, Some 2)]"
  by code_simp

subsection \<open>The merge graph\<close>

lemma beyond_cutoff_None [simp]: "beyond_cutoff md None = False" "beyond_cutoff None d = False"
  by (auto simp: beyond_cutoff_def split: option.splits)

lemma set_append_absent [simp]: "set (append_absent c cs) = insert c (set cs)"
  by (auto simp: append_absent_def)

lemma add_merge_parent_children:
  "map_of (parent_children (add_merge row p l r g)) =
   (map_of (parent_children g))(p \<mapsto>
      (case map_of (parent_children g) p of
         Some cs \<Rightarrow> append_absent r (append_absent l cs) | None \<Rightarrow> [l, r]))"
  by (simp add: add_merge_def Let_def update_conv' split: option.splits pyval.splits)

lemma add_merge_children_seen:
  "children_seen (add_merge row p l r g) = insert l (insert r (children_seen g))"
  by (simp add: add_merge_def Let_def split: option.splits pyval.splits)

lemma add_merge_children:
  "\<exists>cs. map_of (parent_children (add_merge row p l r g)) p = Some cs \<and> l \<in> set cs \<and> r \<in> set cs"
  by (simp add: add_merge_parent_children split: option.splits)

lemma malformed_distance:
  "Distance row = PNone \<or> Distance row = PStr [] \<or> py_float rt (Distance row) = None \<Longrightarrow>
   parse_distance rt (Distance row) = None"
  by (auto simp: parse_distance_def present_def)

text \<open>
  C10. A row whose distance is absent (\<^verbatim>\<open>row.get\<close> gives \<^verbatim>\<open>None\<close>), the empty string,
  or does not convert to a float is treated, whatever \<^verbatim>\<open>max_distance\<close> is, as it is
  without a cutoff; and when its three ids are representable it enters the adjacency: after
  the row the parent maps to a list holding both children. (A row with an unrepresentable
  id is dropped before the distance is looked at, with or without a cutoff.)
\<close>

theorem malformed_distance_never_pruned:
  assumes "Distance row = PNone \<or> Distance row = PStr [] \<or> py_float rt (Distance row) = None"
  shows "hier_step rt max_distance row g = hier_step rt None row g \<and>
         (to_int (Parent_ID row) = Inr (Some p) \<and> to_int (Child_Left_ID row) = Inr (Some l) \<and>
          to_int (Child_Right_ID row) = Inr (Some r) \<longrightarrow>
          (\<exists>g' cs. hier_step rt max_distance row g = Inr g' \<and>
                   map_of (parent_children g') p = Some cs \<and> l \<in> set cs \<and> r \<in> set cs))"
  using malformed_distance[OF assms] add_merge_children[of row p l r g]
  by (auto simp: hier_step_def split: sum.splits option.splits)

theorem malformed_distance_never_pruned_witness:
  "(Distance (merge_row 2 0 1\<lparr>Distance := PStr ''far''\<rparr>) = PNone \<or>
    Distance (merge_row 2 0 1\<lparr>Distance := PStr ''far''\<rparr>) = PStr [] \<or>
    py_float plain_runtime (Distance (merge_row 2 0 1\<lparr>Distance := PStr ''far''\<rparr>)) = None) \<and>
   to_int (Parent_ID (merge_row 2 0 1\<lparr>Distance := PStr ''far''\<rparr>)) = Inr (Some 2) \<and>
   to_int (Child_Left_ID (merge_row 2 0 1\<lparr>Distance := PStr ''far''\<rparr>)) = Inr (Some 0) \<and>
   to_int (Child_Right_ID (merge_row 2 0 1\<lparr>Distance := PStr ''far''\<rparr>)) = Inr (Some 1) \<and>
   (\<exists>g' cs. hier_step plain_runtime (Some (FFin 0)) (merge_row 2 0 1\<lparr>Distance := PStr ''far''\<rparr>)
              \<lparr>parent_children = [], parent_labels = [], children_seen = {}\<rparr> = Inr g' \<and>
            map_of (parent_children g') 2 = Some cs \<and> 0 \<in> set cs \<and> 1 \<in> set cs)"
proof -
  have h: "Distance (merge_row 2 0 1\<lparr>Distance := PStr ''far''\<rparr>) = PNone \<or>
    Distance (merge_row 2 0 1\<lparr>Distance := PStr ''far''\<rparr>) = PStr [] \<or>
    py_float plain_runtime (Distance (merge_row 2 0 1\<lparr>Distance := PStr ''far''\<rparr>)) = None"
    by (simp add: merge_row_def plain_runtime_def)
  have ids: "to_int (Parent_ID (merge_row 2 0 1\<lparr>Distance := PStr ''far''\<rparr>)) = Inr (Some 2) \<and>
   to_int (Child_Left_ID (merge_row 2 0 1\<lparr>Distance := PStr ''far''\<rparr>)) = Inr (Some 0) \<and>
   to_int (Child_Right_ID (merge_row 2 0 1\<lparr>Distance := PStr ''far''\<rparr>)) = Inr (Some 1)"
    by (simp add: merge_row_def)
  from malformed_distance_never_pruned[OF h, of "Some (FFin 0)"
      "\<lparr>parent_children = [], parent_labels = [], children_seen = {}\<rparr>" 2 0 1] ids h
  show ?thesis by blast
qed

lemma hier_loop_filter:
  "hier_loop rt (Some m) rows g = Inr g' \<Longrightarrow>
   hier_loop rt (Some m)
     (filter (\<lambda>row. \<not> beyond_cutoff (Some m) (parse_distance rt (Distance row))) rows) g = Inr g'"
proof (induction rows arbitrary: g)
  case Nil
  then show ?case by simp
next
  case (Cons row rows)
  then show ?case
    by (auto simp: hier_step_def split: sum.splits option.splits if_splits)
qed

lemma scenario_pruned:
  "\<exists>ns st.
     build_topic_tree rt get_topic None
       (Some [\<lparr>Parent_ID = PInt 2, Child_Left_ID = PInt 0, Child_Right_ID = PInt 1,
               Distance = PFloat (FFin 0.5), Parent_Name = parent_name\<rparr>])
       (Some [PInt (- 1), PInt 0, PInt 0, PInt 1]) None [1, 2, 3, 4] top_terms
       (Some [(''max_distance'', PFloat (FFin 0.3))]) = Inr (ns, st) \<and>
     map (\<lambda>n. (topic_id n, parent_id n, level n)) ns = [(0, None, 0), (1, None, 0)]"
  by (simp add: build_topic_tree_def build_doc_members_def outlier_topic_def dict_get_def
      weight_of_def build_summary_def build_merge_graph_def find_roots_def walk_all_def
      build_leaves_def leaf_topic_ids_def leaf_node_def leaf_size_def add_parents_def walk.simps
      order_nodes_def make_stats_def Let_def max_distance_of_def present_def hier_step_def
      parse_distance_def beyond_cutoff_def)

text \<open>
  C5. With \<^verbatim>\<open>max_distance\<close> configured as \<open>m\<close>, the rows whose distance converts to a
  float greater than \<open>m\<close> take no part in the adjacency: the merge graph built from the
  table is the one built from the table without them. In the scenario (documents 1..4
  assigned to \<open>-1, 0, 0, 1\<close>, the single row \<open>2 \<leftarrow> (0, 1)\<close> at distance 0.5,
  \<^verbatim>\<open>max_distance\<close> 0.3) the output is the two leaves 0 and 1, both without parent and at
  level 0, and no node 2.
\<close>

theorem distant_merges_are_pruned:
  "(max_distance_of rt hierarchy_conf = Some m \<and>
    build_merge_graph rt (max_distance_of rt hierarchy_conf) (Some rows) = Inr g \<longrightarrow>
    build_merge_graph rt (max_distance_of rt hierarchy_conf)
      (Some (filter (\<lambda>row. \<not> (case parse_distance rt (Distance row) of
                                   None \<Rightarrow> False | Some d \<Rightarrow> float_gt d m)) rows)) = Inr g) \<and>
   (\<exists>ns st.
     build_topic_tree rt get_topic None
       (Some [\<lparr>Parent_ID = PInt 2, Child_Left_ID = PInt 0, Child_Right_ID = PInt 1,
               Distance = PFloat (FFin 0.5), Parent_Name = parent_name\<rparr>])
       (Some [PInt (- 1), PInt 0, PInt 0, PInt 1]) None [1, 2, 3, 4] top_terms
       (Some [(''max_distance'', PFloat (FFin 0.3))]) = Inr (ns, st) \<and>
     map (\<lambda>n. (topic_id n, parent_id n, level n)) ns = [(0, None, 0), (1, None, 0)])"
proof (rule conjI)
  show "max_distance_of rt hierarchy_conf = Some m \<and>
    build_merge_graph rt (max_distance_of rt hierarchy_conf) (Some rows) = Inr g \<longrightarrow>
    build_merge_graph rt (max_distance_of rt hierarchy_conf)
      (Some (filter (\<lambda>row. \<not> (case parse_distance rt (Distance row) of
                                   None \<Rightarrow> False | Some d \<Rightarrow> float_gt d m)) rows)) = Inr g"
    using hier_loop_filter[of rt m rows _ g]
    by (auto simp: build_merge_graph_def beyond_cutoff_def)
next
  show "\<exists>ns st.
     build_topic_tree rt get_topic None
       (Some [\<lparr>Parent_ID = PInt 2, Child_Left_ID = PInt 0, Child_Right_ID = PInt 1,
               Distance = PFloat (FFin 0.5), Parent_Name = parent_name\<rparr>])
       (Some [PInt (- 1), PInt 0, PInt 0, PInt 1]) None [1, 2, 3, 4] top_terms
       (Some [(''max_distance'', PFloat (FFin 0.3))]) = Inr (ns, st) \<and>
     map (\<lambda>n. (topic_id n, parent_id n, level n)) ns = [(0, None, 0), (1, None, 0)]"
    by (rule scenario_pruned)
qed

theorem distant_merges_are_pruned_witness:
  "max_distance_of plain_runtime (Some [(''max_distance'', PFloat (FFin 0.3))]) = Some (FFin 0.3) \<and>
   build_merge_graph plain_runtime
     (max_distance_of plain_runtime (Some [(''max_distance'', PFloat (FFin 0.3))]))
     (Some [merge_row 2 0 1\<lparr>Distance := PFloat (FFin 0.5)\<rparr>, merge_row 5 3 4]) =
     Inr \<lparr>parent_children = [(5, [3, 4])], parent_labels = [], children_seen = {3, 4}\<rparr> \<and>
   build_merge_graph plain_runtime
     (max_distance_of plain_runtime (Some [(''max_distance'', PFloat (FFin 0.3))]))
     (Some (filter (\<lambda>row. \<not> (case parse_distance plain_runtime (Distance row) of
                                  None \<Rightarrow> False | Some d \<Rightarrow> float_gt d (FFin 0.3)))
              [merge_row 2 0 1\<lparr>Distance := PFloat (FFin 0.5)\<rparr>, merge_row 5 3 4])) =
     Inr \<lparr>parent_children = [(5, [3, 4])], parent_labels = [], children_seen = {3, 4}\<rparr>"
proof -
  have h: "max_distance_of plain_runtime (Some [(''max_distance'', PFloat (FFin 0.3))]) = Some (FFin 0.3) \<and>
   build_merge_graph plain_runtime
     (max_distance_of plain_runtime (Some [(''max_distance'', PFloat (FFin 0.3))]))
     (Some [merge_row 2 0 1\<lparr>Distance := PFloat (FFin 0.5)\<rparr>, merge_row 5 3 4]) =
     Inr \<lparr>parent_children = [(5, [3, 4])], parent_labels = [], children_seen = {3, 4}\<rparr>"
    by (simp add: max_distance_of_def present_def build_merge_graph_def hier_step_def merge_row_def
        parse_distance_def beyond_cutoff_def add_merge_def insert_commute)
  from distant_merges_are_pruned[THEN conjunct1, rule_format, OF h] h
  show ?thesis by blast
qed

lemma graph_ok_add_merge:
  assumes "graph_ok g"
  shows "graph_ok (add_merge row p l r g)"
proof (cases "map_of (parent_children g) p")
  case None
  show ?thesis
    unfolding graph_ok_def add_merge_parent_children add_merge_children_seen None
    using assms[unfolded graph_ok_def] None
    by (auto split: if_splits) (metis option.distinct(1))+
next
  case (Some cs)
  show ?thesis
    unfolding graph_ok_def add_merge_parent_children add_merge_children_seen Some
    using assms[unfolded graph_ok_def] Some
    by (auto split: if_splits) (metis option.inject)+
qed

lemma graph_ok_hier_step:
  "graph_ok g \<Longrightarrow> hier_step rt md row g = Inr g' \<Longrightarrow> graph_ok g'"
  by (auto simp: hier_step_def graph_ok_add_merge split: sum.splits option.splits if_splits)

lemma graph_ok_hier_loop:
  "graph_ok g \<Longrightarrow> hier_loop rt md rows g = Inr g' \<Longrightarrow> graph_ok g'"
proof (induction rows arbitrary: g)
  case Nil
  then show ?case by simp
next
  case (Cons row rows)
  then show ?case by (auto split: sum.splits dest: graph_ok_hier_step)
qed

lemma graph_ok_build:
  "build_merge_graph rt md df = Inr g \<Longrightarrow> graph_ok g"
  unfolding build_merge_graph_def
  by (erule graph_ok_hier_loop[rotated]) (simp add: graph_ok_def)

lemma sorted_le_last: "sorted xs \<Longrightarrow> x \<in> set xs \<Longrightarrow> x \<le> last xs"
  by (induction xs) auto

lemma last_sort_Max: "xs \<noteq> [] \<Longrightarrow> last (sort xs) = Max (set xs)"
proof -
  assume ne: "xs \<noteq> []"
  then have ne': "sort xs \<noteq> []" by (metis length_sort length_0_conv)
  have "Max (set xs) = last (sort xs)"
  proof (rule Max_eqI)
    show "finite (set xs)" by simp
    show "last (sort xs) \<in> set xs" using last_in_set[OF ne'] by simp
    fix y assume "y \<in> set xs"
    then show "y \<le> last (sort xs)" using sorted_le_last[of "sort xs" y] by simp
  qed
  then show ?thesis by simp
qed

text \<open>
  C7. For the merge graph built from any merge table: the parents are the keys of the
  adjacency and the candidates are the parents that stand in no list of children of the
  adjacency (the children of the rows that entered it). When there is a candidate, the
  roots are exactly the candidates, each once; when there is none and a parent exists,
  the single root is the largest parent id; without parents there is no root.
\<close>

theorem roots_are_parents_never_children:
  assumes "build_merge_graph rt max_distance hierarchy_df = Inr g"
  shows "(let parents = set (map fst (parent_children g));
              candidates = {p \<in> parents. \<forall>q cs. map_of (parent_children g) q = Some cs \<longrightarrow> p \<notin> set cs}
          in (candidates \<noteq> {} \<longrightarrow> set (find_roots rt g) = candidates \<and> distinct (find_roots rt g)) \<and>
             (candidates = {} \<and> parents \<noteq> {} \<longrightarrow> find_roots rt g = [Max parents]) \<and>
             (parents = {} \<longrightarrow> find_roots rt g = []))"
proof -
  have ok: "\<And>c. c \<in> children_seen g \<longleftrightarrow> (\<exists>p cs. map_of (parent_children g) p = Some cs \<and> c \<in> set cs)"
    using graph_ok_build[OF assms] by (simp add: graph_ok_def)
  have cand: "set (filter (\<lambda>pid. pid \<notin> children_seen g) (iter_set rt (map fst (parent_children g)))) =
     {p \<in> set (map fst (parent_children g)). \<forall>q cs. map_of (parent_children g) q = Some cs \<longrightarrow> p \<notin> set cs}"
    using ok by auto
  show ?thesis
    unfolding Let_def cand[symmetric]
    by (auto simp: find_roots_def Let_def last_sort_Max filter_empty_conv simp del: set_map)
qed

theorem roots_are_parents_never_children_witness:
  "build_merge_graph plain_runtime None (Some [merge_row 2 1 2, merge_row 1 2 0]) =
     Inr \<lparr>parent_children = [(2, [1, 2]), (1, [2, 0])], parent_labels = [],
          children_seen = {0, 1, 2}\<rparr> \<and>
   (let parents = set (map fst (parent_children
          \<lparr>parent_children = [(2, [1, 2]), (1, [2, 0])], parent_labels = [], children_seen = {0, 1, 2}\<rparr>));
        candidates = {p \<in> parents. \<forall>q cs. map_of (parent_children
          \<lparr>parent_children = [(2, [1, 2]), (1, [2, 0])], parent_labels = [], children_seen = {0, 1, 2}\<rparr>) q = Some cs
             \<longrightarrow> p \<notin> set cs}
    in (candidates \<noteq> {} \<longrightarrow>
          set (find_roots plain_runtime
            \<lparr>parent_children = [(2, [1, 2]), (1, [2, 0])], parent_labels = [], children_seen = {0, 1, 2}\<rparr>) = candidates \<and>
          distinct (find_roots plain_runtime
            \<lparr>parent_children = [(2, [1, 2]), (1, [2, 0])], parent_labels = [], children_seen = {0, 1, 2}\<rparr>)) \<and>
       (candidates = {} \<and> parents \<noteq> {} \<longrightarrow>
          find_roots plain_runtime
            \<lparr>parent_children = [(2, [1, 2]), (1, [2, 0])], parent_labels = [], children_seen = {0, 1, 2}\<rparr> = [Max parents]) \<and>
       (parents = {} \<longrightarrow>
          find_roots plain_runtime
            \<lparr>parent_children = [(2, [1, 2]), (1, [2, 0])], parent_labels = [], children_seen = {0, 1, 2}\<rparr> = []))"
proof -
  have h: "build_merge_graph plain_runtime None (Some [merge_row 2 1 2, merge_row 1 2 0]) =
     Inr \<lparr>parent_children = [(2, [1, 2]), (1, [2, 0])], parent_labels = [],
          children_seen = {0, 1, 2}\<rparr>"
    by (simp add: build_merge_graph_def hier_step_def merge_row_def parse_distance_def present_def
        add_merge_def insert_commute)
  show ?thesis by (rule conjI[OF h roots_are_parents_never_children[OF h]])
qed

subsection \<open>Leaf sizes\<close>

lemma dict_get_update:
  "dict_get (AList.update k v d) k' = (if k' = k then v else dict_get d k')"
  by (simp add: dict_get_def update_conv')

lemma assign_loop_count:
  "assign_loop dl pr idx as dm = Inr dm' \<Longrightarrow> t \<noteq> outlier_topic \<Longrightarrow>
   length (dict_get dm' t) =
     length (dict_get dm t) +
     length (filter (\<lambda>a. to_int a = Inr (Some t)) (take (length dl - idx) as))"
proof (induction as arbitrary: idx dm)
  case Nil
  then show ?case by simp
next
  case (Cons a as)
  show ?case
  proof (cases "length dl \<le> idx")
    case True
    with Cons.prems Cons.IH[of "Suc idx" dm] show ?thesis
      by (auto split: sum.splits option.splits if_splits)
  next
    case False
    then obtain k where k: "length dl - idx = Suc k" "length dl - Suc idx = k"
      by (cases "length dl - idx") auto
    from Cons.prems False show ?thesis
      by (auto simp: k dict_get_update split: sum.splits option.splits if_splits
               dest!: Cons.IH[OF _ Cons.prems(2)])
  qed
qed

lemma dict_get_map_sort:
  "dict_get (map (\<lambda>(t, entries). (t, sort_key f entries)) dm) t = sort_key f (dict_get dm t)"
  by (induction dm) (auto simp: dict_get_def)

lemma build_doc_members_count:
  assumes "build_doc_members topics pr doc_ids = Inr dm" and "t \<noteq> outlier_topic"
  shows "length (dict_get dm t) =
           membership_count (case topics of None \<Rightarrow> [] | Some ts \<Rightarrow> ts) doc_ids t"
proof -
  from assms(1) obtain dm0 where
    loop: "assign_loop doc_ids pr 0 (case topics of None \<Rightarrow> [] | Some ts \<Rightarrow> ts) [] = Inr dm0"
    and dm: "dm = map (\<lambda>(t, entries). (t, sort_key doc_id entries)) dm0"
    by (auto simp: build_doc_members_def split: sum.splits)
  from assign_loop_count[OF loop assms(2)] show ?thesis
    by (simp add: dm dict_get_map_sort membership_count_def) (simp add: dict_get_def)
qed

lemma info_step_size:
  "t \<noteq> t' \<Longrightarrow> map_of (size_by_topic (info_step rt dm row t' cv s)) t = map_of (size_by_topic s) t"
  "map_of (size_by_topic (info_step rt dm row t cv s)) t =
     (case cv of None \<Rightarrow> map_of (size_by_topic s) t
               | Some c \<Rightarrow> Some (max c (int (length (dict_get dm t)))))"
  by (auto simp: info_step_def Let_def update_conv' split: option.splits pyval.splits)

lemma info_loop_size:
  "info_loop rt dm rows s = Inr s' \<Longrightarrow> t \<noteq> outlier_topic \<Longrightarrow>
   map_of (size_by_topic s) t = map_option (\<lambda>c. max c (int (length (dict_get dm t)))) acc \<Longrightarrow>
   map_of (size_by_topic s') t =
     map_option (\<lambda>c. max c (int (length (dict_get dm t))))
       (foldl (\<lambda>acc row.
              if to_int (Topic row) = Inr (Some t)
              then (case to_int (Count row) of Inr (Some c) \<Rightarrow> Some c | _ \<Rightarrow> acc)
              else acc) acc rows)"
proof (induction rows arbitrary: s acc)
  case Nil
  then show ?case by simp
next
  case (Cons row rows)
  let ?f = "\<lambda>acc row.
              if to_int (Topic row) = Inr (Some t)
              then (case to_int (Count row) of Inr (Some c) \<Rightarrow> Some c | _ \<Rightarrow> acc)
              else acc"
  from Cons.prems(1) obtain s1 where
    rest: "info_loop rt dm rows s1 = Inr s'"
    and s1: "map_of (size_by_topic s1) t =
               map_option (\<lambda>c. max c (int (length (dict_get dm t)))) (?f acc row)"
    using Cons.prems(2,3)
    by (cases "to_int (Topic row) = Inr (Some t)")
       (auto simp: info_step_size split: sum.splits option.splits if_splits)
  from Cons.IH[OF rest Cons.prems(2) s1] show ?case by simp
qed

lemma build_summary_size:
  "build_summary rt dm topic_info = Inr s \<Longrightarrow> t \<noteq> outlier_topic \<Longrightarrow>
   map_of (size_by_topic s) t =
     map_option (\<lambda>c. max c (int (length (dict_get dm t))))
       (reported_count (case topic_info of None \<Rightarrow> [] | Some rows \<Rightarrow> rows) t)"
  unfolding build_summary_def reported_count_def
  by (erule info_loop_size) simp_all

lemma map_of_fold_update:
  "map_of (fold (\<lambda>t nodes. AList.update t (f t) nodes) ids acc) t =
     (if t \<in> set ids then Some (f t) else map_of acc t)"
  by (induction ids arbitrary: acc) (auto simp: update_conv')

lemma map_of_build_leaves:
  "map_of (build_leaves gt tc s dm) t =
     (if t \<in> set (leaf_topic_ids s dm) then Some (leaf_node gt tc s dm t) else None)"
  by (simp add: build_leaves_def map_of_fold_update)

lemma leaf_topic_ids_iff:
  "t \<in> set (leaf_topic_ids s dm) \<longleftrightarrow>
     t \<noteq> outlier_topic \<and> (map_of (size_by_topic s) t \<noteq> None \<or> map_of dm t \<noteq> None)"
  by (auto simp: leaf_topic_ids_def map_of_eq_None_iff)

text \<open>
  What the leaf builder does for a cluster id other than the outlier that has a
  representable reported count or at least one member: it builds a node for the id, whose
  size is the maximum of the reported count and the membership count, or the membership
  count when no count is reported.
\<close>

lemma leaf_size_of_counted_or_assigned:
  assumes "build_doc_members topics probabilities doc_ids = Inr doc_members"
    and "build_summary rt doc_members topic_info = Inr s"
    and "t \<noteq> outlier_topic"
    and "reported_count (case topic_info of None \<Rightarrow> [] | Some rows \<Rightarrow> rows) t \<noteq> None \<or>
         0 < membership_count (case topics of None \<Rightarrow> [] | Some ts \<Rightarrow> ts) doc_ids t"
  shows "\<exists>n. map_of (build_leaves get_topic top_count s doc_members) t = Some n \<and>
             topic_id n = t \<and>
             node_size n =
               (case reported_count (case topic_info of None \<Rightarrow> [] | Some rows \<Rightarrow> rows) t of
                  None \<Rightarrow> int (membership_count (case topics of None \<Rightarrow> [] | Some ts \<Rightarrow> ts) doc_ids t)
                | Some c \<Rightarrow>
                    max c (int (membership_count (case topics of None \<Rightarrow> [] | Some ts \<Rightarrow> ts) doc_ids t)))"
proof -
  note cnt = build_doc_members_count[OF assms(1,3)]
  note sz = build_summary_size[OF assms(2,3)]
  have "t \<in> set (leaf_topic_ids s doc_members)"
    using assms(3,4) cnt sz by (auto simp: leaf_topic_ids_iff dict_get_def split: option.splits)
  then show ?thesis
    using cnt sz
    by (auto simp: map_of_build_leaves leaf_node_def leaf_size_def Let_def split: option.splits)
qed

text \<open>
  C6. The claim is that every cluster id present in the summary rows or in the membership
  aggregation gets a node, of size the membership count when the summary rows report no
  count for it. The leaf ids of the source are the keys of \<^verbatim>\<open>size_by_topic\<close> and the ids
  with members, and \<^verbatim>\<open>size_by_topic\<close> gets a key only from a row whose \<^verbatim>\<open>Count\<close> is
  representable. So a summary row for cluster 5 that has a name and no count, with no
  document assigned to 5, gets no node at all (the claim gives it a node of size 0),
  although the name of the row was stored in \<^verbatim>\<open>label_by_topic\<close>, which only the leaf
  builder reads. The same row with the count 0 gets the node, with that label and size 0.
\<close>

theorem summary_row_without_count_gets_no_node:
  "build_topic_tree rt get_topic
     (Some [\<lparr>Topic = PInt 5, Count = PNone, Name = PStr ''foo'', Probability = PNone\<rparr>])
     None None None [] top_terms hierarchy_conf =
     Inr ([], \<lparr>parents_expected = 0, parents_emitted = 0, roots = 0, leaf_count = 0,
               max_level = 0, has_links = False\<rparr>) \<and>
   (\<exists>ns st.
      build_topic_tree rt get_topic
        (Some [\<lparr>Topic = PInt 5, Count = PInt 0, Name = PStr ''foo'', Probability = PNone\<rparr>])
        None None None [] top_terms hierarchy_conf = Inr (ns, st) \<and>
      map (\<lambda>n. (topic_id n, label n, node_size n, docs n)) ns = [(5, ''foo'', 0, [])])"
  by (simp add: build_topic_tree_def build_doc_members_def outlier_topic_def dict_get_def
      weight_of_def build_summary_def info_step_def present_def strip_def is_space_def
      build_merge_graph_def find_roots_def walk_all_def
      build_leaves_def leaf_topic_ids_def leaf_node_def leaf_size_def add_parents_def walk.simps
      order_nodes_def make_stats_def Let_def)

subsection \<open>Invariants of the walk\<close>




subsection \<open>Terms\<close>













lemma node_ok_fields [simp]:
  "node_ok gt tc k (n\<lparr>level := l\<rparr>) = node_ok gt tc k n"
  "node_ok gt tc k (n\<lparr>parent_id := p\<rparr>) = node_ok gt tc k n"
  "node_ok gt tc k (n\<lparr>label := lb\<rparr>) = node_ok gt tc k n"
  "node_ok gt tc k (n\<lparr>node_size := sz\<rparr>) = node_ok gt tc k n"
  "node_ok gt tc k (n\<lparr>docs := ds\<rparr>) = node_ok gt tc k n"
  by (simp_all add: node_ok_def)

lemma aggregated_ok_Nil [simp]: "aggregated_ok []"
  by (simp add: aggregated_ok_def)

lemma node_ok_stub [simp]: "node_ok gt tc c (stub c p l)"
  by (simp add: node_ok_def stub_def)












text \<open>
  C4. The claim is that the terms of every node are at most \<^verbatim>\<open>top_n_terms\<close>, sorted by
  non-increasing score and ranked \<open>1..n\<close>. The leaf builder takes the rank of a term from
  \<^verbatim>\<open>enumerate(topic_terms, start=1)\<close> and skips an entry whose word is blank without
  giving its rank to the next one. With \<^verbatim>\<open>top_n_terms = 10\<close> and a topic model that lists
  for topic 0, in the order of the scores, a blank word, then \<open>a\<close>, then \<open>b\<close>, the leaf 0
  has the terms \<open>a\<close> and \<open>b\<close> with the ranks 2 and 3, not 1 and 2. The two other places
  that build terms, the fallback from the label and \<^verbatim>\<open>aggregate_terms\<close>, number the
  terms they keep \<open>1..n\<close> (lemmas \<open>fallback_terms_props\<close> and \<open>aggregate_terms_props\<close>).
\<close>

theorem blank_word_leaves_a_rank_gap:
  "\<exists>ns st.
     build_topic_tree rt (\<lambda>t. [('''', 9 / 10), (''a'', 1 / 2), (''b'', 1 / 10)]) None None
       (Some [PInt 0]) None [1] (PInt 10) hierarchy_conf = Inr (ns, st) \<and>
     map (\<lambda>n. (topic_id n, map (\<lambda>t. (term_text t, term_score t, term_rank t)) (terms n))) ns =
       [(0, [(''a'', 1 / 2, 2), (''b'', 1 / 10, 3)])]"
  by (simp add: build_topic_tree_def build_doc_members_def outlier_topic_def dict_get_def
      weight_of_def build_summary_def top_count_of_def leaf_terms_def strip_def is_space_def
      build_merge_graph_def find_roots_def walk_all_def
      build_leaves_def leaf_topic_ids_def leaf_node_def leaf_size_def add_parents_def walk.simps
      order_nodes_def make_stats_def Let_def)

subsection \<open>Sizes\<close>











































lemma append_absent_nonempty [simp]: "append_absent c cs \<noteq> []"
  by (auto simp: append_absent_def)
















lemma find_roots_keys: "set (find_roots rt g) \<subseteq> set (map fst (parent_children g))"
proof -
  have "last (sort (map fst (parent_children g))) \<in> set (map fst (parent_children g))"
    if "parent_children g \<noteq> []"
    using that last_in_set[of "sort (map fst (parent_children g))"]
    by (metis Nil_is_map_conv length_0_conv length_sort set_sort)
  then show ?thesis by (auto simp: find_roots_def Let_def)
qed













text \<open>
  The ranking cannot be dropped. In the cyclic table \<open>1 \<leftarrow> (2, 0)\<close>, \<open>2 \<leftarrow> (1, 0)\<close> with one
  document in cluster 0, the walk starts at 2 and meets 2 again under 1, where it takes
  the size 0 that 2 has at that moment: the node 1 gets the size 1, and its children 2
  and 0 end with the sizes 2 and 1.
\<close>

lemma sizes_in_a_cycle:
  "(case build_topic_tree plain_runtime (\<lambda>t. []) None (Some [merge_row 1 2 0, merge_row 2 1 0])
           (Some [PInt 0]) None [7] (PInt 10) None of
      Inl e \<Rightarrow> []
    | Inr out \<Rightarrow> map (\<lambda>n. (topic_id n, level n, node_size n)) (fst out)) =
   [(2, 0, 2), (1, 1, 1), (0, 2, 1)]"
  by code_simp

end
